theory Spec2Isabelle
  imports
    Complex_Main
    "HOL-Library.Multiset"
    "HOL-Library.Word"
    "HOL-Library.Sublist"
    "HOL-Library.Char_ord"
    "HOL-Library.List_Lexorder"
begin

section \<open>Errors\<close>

text \<open>
  The exceptions the modelled code can raise: \<open>ConfigError\<close> is the \<open>Exception\<close>
  that \<open>Circuit.initiate_circuit\<close> raises itself ("The truncated dimensions attribute
  for hierarchical diagonalization is not set."); the others are Python's own.
\<close>

datatype error = ConfigError | IndexError | TypeError | AttributeError


section \<open>System hierarchies and truncation templates\<close>

text \<open>
  A system hierarchy is a Python list that is either a list of variable indices or a
  list of such lists, to any depth (\<open>[[1, 2], [3]]\<close>, \<open>[[[1], [2]], [3]]\<close>). The functions
  of \<open>circuit.py\<close> that walk a hierarchy iterate over its groups, so they take the
  \<open>group list\<close> of a nested hierarchy. The empty Python list is both \<open>Flat []\<close> and
  \<open>Nested []\<close>; every function below treats the two alike.
\<close>

datatype group = Flat "nat list" | Nested "group list"

text \<open>
  Modelled from the spec: \<open>flatten_list_recursive\<close> of \<open>scqubits.utils.misc\<close> is
  imported by \<open>circuit.py\<close> but is not among the sources. The spec speaks of a
  group's flattened indices: the indices of the group in their order of appearance.
\<close>

fun flatten_list_recursive :: "group \<Rightarrow> nat list" where
  "flatten_list_recursive (Flat xs) = xs"
| "flatten_list_recursive (Nested gs) = concat (map flatten_list_recursive gs)"

text \<open>
  Python's \<open>==\<close> between a hierarchy and a list of indices: a list whose elements
  are lists equals a list of integers only when both are empty.
\<close>

fun list_eq :: "group \<Rightarrow> nat list \<Rightarrow> bool" where
  "list_eq (Flat xs) ys = (xs = ys)"
| "list_eq (Nested gs) ys = (gs = [] \<and> ys = [])"

text \<open>The test \<open>subsystem_hierarchy == flatten_list_recursive(subsystem_hierarchy)\<close>.\<close>

definition is_flat :: "group \<Rightarrow> bool" where
  "is_flat g = list_eq g (flatten_list_recursive g)"

text \<open>The groups a hierarchy is made of (none for a list of indices), and \<open>len\<close>.\<close>

fun subgroups :: "group \<Rightarrow> group list" where
  "subgroups (Flat xs) = []"
| "subgroups (Nested gs) = gs"

fun len :: "group \<Rightarrow> nat" where
  "len (Flat xs) = length xs"
| "len (Nested gs) = length gs"

text \<open>
  \<open>system_hierarchy != [] and system_hierarchy != flatten_list_recursive(system_hierarchy)\<close>,
  the value both constructors give to \<open>hierarchical_diagonalization\<close>.
\<close>

definition is_hierarchical :: "group \<Rightarrow> bool" where
  "is_hierarchical g = (len g \<noteq> 0 \<and> \<not> is_flat g)"

text \<open>
  An entry of \<open>subsystem_trunc_dims\<close>: an integer for a group that is diagonalized
  directly, or the two-element list \<open>[combined, inner]\<close> for a group that is itself
  diagonalized hierarchically.
\<close>

datatype trunc_dim = TDim int | TComb int "trunc_dim list"

text \<open>
  \<open>truncation_template(system_hierarchy, individual_trunc_dim=6, combined_trunc_dim=50)\<close>.
  The recursive call of the source passes the sub-hierarchy alone, so the two
  dimensions take their default values there.
\<close>

function truncation_template :: "group list \<Rightarrow> int \<Rightarrow> int \<Rightarrow> trunc_dim list" where
  "truncation_template [] individual_trunc_dim combined_trunc_dim = []"
| "truncation_template (subsystem_hierarchy # rest) individual_trunc_dim combined_trunc_dim =
     (if is_flat subsystem_hierarchy then TDim individual_trunc_dim
      else TComb combined_trunc_dim (truncation_template (subgroups subsystem_hierarchy) 6 50))
     # truncation_template rest individual_trunc_dim combined_trunc_dim"
  by pat_completeness auto
termination
  apply (relation "measure (\<lambda>(gs, i, c). size_list size gs)")
    apply simp
   apply (case_tac subsystem_hierarchy; simp)
  apply simp
  done

text \<open>
  \<open>Subsystem.get_subsystem_index\<close>: the loop over \<open>enumerate(self.system_hierarchy)\<close>
  returns at the first group that holds the index; falling off the end of a Python
  function returns \<open>None\<close>.
\<close>

fun get_subsystem_index_from :: "nat \<Rightarrow> group list \<Rightarrow> nat \<Rightarrow> nat option" where
  "get_subsystem_index_from index [] var_index = None"
| "get_subsystem_index_from index (g # rest) var_index =
     (if var_index \<in> set (flatten_list_recursive g) then Some index
      else get_subsystem_index_from (Suc index) rest var_index)"

definition get_subsystem_index :: "group list \<Rightarrow> nat \<Rightarrow> nat option" where
  "get_subsystem_index groups var_index = get_subsystem_index_from 0 groups var_index"


section \<open>Cutoff attributes and the Hilbert-space dimension\<close>

text \<open>Python's \<open>str\<close> on a variable index, and the substring test \<open>a in b\<close>.\<close>

definition digit_char :: "nat \<Rightarrow> char" where
  "digit_char d = ''0123456789'' ! d"

function str :: "nat \<Rightarrow> string" where
  "str n = (if n < 10 then [digit_char n] else str (n div 10) @ [digit_char (n mod 10)])"
  by pat_completeness auto
termination
  by (relation "measure id") auto

declare str.simps [simp del]

fun is_substr :: "string \<Rightarrow> string \<Rightarrow> bool" where
  "is_substr p [] = (p = [])"
| "is_substr p (c # cs) = (prefix p (c # cs) \<or> is_substr p cs)"

text \<open>
  The names both constructors give to the cutoff properties:
  \<open>"cutoff_n_" + str(var_index)\<close> for a periodic variable and
  \<open>"cutoff_ext_" + str(var_index)\<close> for an extended one.
\<close>

definition cutoff_n_name :: "nat \<Rightarrow> string" where
  "cutoff_n_name var_index = ''cutoff_n_'' @ str var_index"

definition cutoff_ext_name :: "nat \<Rightarrow> string" where
  "cutoff_ext_name var_index = ''cutoff_ext_'' @ str var_index"

text \<open>
  A subsystem node as \<open>generate_subsystems\<close> builds it: its own hierarchy, its
  truncated dimension, the truncated dimensions of its children and the children.
\<close>

datatype node = Node group int "trunc_dim list option" "node list"

text \<open>
  The fields of a \<open>Circuit\<close> or \<open>Subsystem\<close> instance that the modelled methods read
  or write. \<open>var_categories\<close> is the dictionary of the symbolic circuit, its keys in
  their order, each with its list of variable indices. \<open>attrs\<close> holds the cutoff
  properties made by \<open>_make_property\<close>, under the names of the properties;
  \<open>subsystems\<close> is \<open>None\<close> while the attribute has not been assigned.
\<close>

record circuit =
  var_categories :: "(string \<times> nat list) list"
  hierarchical_diagonalization :: bool
  system_hierarchy :: "group option"
  subsystem_trunc_dims :: "trunc_dim list option"
  cutoff_names :: "string list"
  attrs :: "string \<rightharpoonup> int"
  subsystems :: "node list option"

text \<open>\<open>[getattr(self, attr) for attr in attr_list]\<close>; a missing attribute raises.\<close>

fun getattrs :: "(string \<rightharpoonup> int) \<Rightarrow> string list \<Rightarrow> error + int list" where
  "getattrs a [] = Inr []"
| "getattrs a (n # ns) =
     (case a n of None \<Rightarrow> Inl AttributeError
      | Some v \<Rightarrow> (case getattrs a ns of Inl e \<Rightarrow> Inl e | Inr vs \<Rightarrow> Inr (v # vs)))"

text \<open>One round of the loop of \<open>get_cutoffs\<close>, then the method itself.\<close>

definition cutoffs_of_type :: "circuit \<Rightarrow> string \<Rightarrow> error + int list" where
  "cutoffs_of_type self cutoff_type =
     (let attr_list = filter (is_substr cutoff_type) (cutoff_names self)
      in if length attr_list > 0 then getattrs (attrs self) (sort attr_list) else Inr [])"

definition get_cutoffs :: "circuit \<Rightarrow> error + (string \<times> int list) list" where
  "get_cutoffs self =
     (case cutoffs_of_type self ''cutoff_n'' of Inl e \<Rightarrow> Inl e
      | Inr ns \<Rightarrow>
        (case cutoffs_of_type self ''cutoff_ext'' of Inl e \<Rightarrow> Inl e
         | Inr es \<Rightarrow> Inr [(''cutoff_n'', ns), (''cutoff_ext'', es)]))"

text \<open>
  The body of the loop over \<open>self.get_cutoffs().keys()\<close> in \<open>hilbertdim\<close>: the
  sublist a key contributes.
\<close>

definition dims_of_cutoffs :: "string \<times> int list \<Rightarrow> int list" where
  "dims_of_cutoffs kv =
     (if is_substr ''cutoff_n'' (fst kv) then map (\<lambda>k. 2 * k + 1) (snd kv)
      else if is_substr ''cutoff_ext'' (fst kv) then snd kv
      else [])"

text \<open>
  \<open>subsystem_trunc_dims[i][0] if type(subsystem_trunc_dims[i]) == list else
  subsystem_trunc_dims[i]\<close>, and the comprehension over \<open>range(len(system_hierarchy))\<close>;
  an index beyond the list raises.
\<close>

fun top_dim :: "trunc_dim \<Rightarrow> int" where
  "top_dim (TDim d) = d"
| "top_dim (TComb d inner) = d"

fun top_dims :: "nat list \<Rightarrow> trunc_dim list \<Rightarrow> error + int list" where
  "top_dims [] tds = Inr []"
| "top_dims (i # idxs) tds =
     (if i < length tds
      then (case top_dims idxs tds of Inl e \<Rightarrow> Inl e
            | Inr ds \<Rightarrow> Inr (top_dim (tds ! i) # ds))
      else Inl IndexError)"

text \<open>
  \<open>np.prod\<close> on a list of Python integers: \<open>numpy\<close> makes the list an array of 64-bit
  integers and multiplies them with wrap-around; the result is read as a signed number.
  (The entries are cutoffs and truncated dimensions; a list with an entry that does not
  fit in 64 bits is outside the model.)
\<close>

definition np_prod :: "int list \<Rightarrow> int" where
  "np_prod xs = sint (prod_list (map word_of_int xs) :: 64 word)"

text \<open>\<open>Subsystem.hilbertdim\<close>.\<close>

definition hilbertdim :: "circuit \<Rightarrow> error + int" where
  "hilbertdim self =
     (if \<not> hierarchical_diagonalization self then
        (case get_cutoffs self of Inl e \<Rightarrow> Inl e
         | Inr d \<Rightarrow> Inr (np_prod (concat (map dims_of_cutoffs d))))
      else
        (case system_hierarchy self of None \<Rightarrow> Inl TypeError
         | Some g \<Rightarrow>
           (case subsystem_trunc_dims self of None \<Rightarrow> Inl TypeError
            | Some tds \<Rightarrow>
              (case top_dims [0..<len g] tds of Inl e \<Rightarrow> Inl e
               | Inr ds \<Rightarrow> Inr (np_prod ds)))))"

text \<open>
  Instances with one periodic and two extended variables. \<open>example_flat\<close> has no
  hierarchy and the cutoffs 5, 30 and 10. \<open>example_hier\<close> has the hierarchy
  \<open>[[[1], [2]], [3]]\<close> and the truncated dimensions \<open>[[7, [6, 6]], 6]\<close>.
  \<open>example_wide\<close> is \<open>example_flat\<close> with both extended cutoffs at \<open>2 ** 32\<close>;
  \<open>example_wide_hier\<close> has the hierarchy \<open>[[1], [2, 3]]\<close> and the truncated
  dimensions \<open>[2 ** 32, 2 ** 32]\<close>.
\<close>

definition example_flat :: circuit where
  "example_flat = \<lparr> var_categories = [(''periodic'', [1]), (''extended'', [2, 3])],
      hierarchical_diagonalization = False,
      system_hierarchy = None,
      subsystem_trunc_dims = None,
      cutoff_names = [''cutoff_n_1'', ''cutoff_ext_2'', ''cutoff_ext_3''],
      attrs = [''cutoff_n_1'' \<mapsto> 5, ''cutoff_ext_2'' \<mapsto> 30, ''cutoff_ext_3'' \<mapsto> 10],
      subsystems = None \<rparr>"

definition example_hier :: circuit where
  "example_hier = example_flat \<lparr> hierarchical_diagonalization := True,
      system_hierarchy := Some (Nested [Nested [Flat [1], Flat [2]], Flat [3]]),
      subsystem_trunc_dims := Some [TComb 7 [TDim 6, TDim 6], TDim 6] \<rparr>"

definition example_wide :: circuit where
  "example_wide = example_flat \<lparr>
      attrs := [''cutoff_n_1'' \<mapsto> 5, ''cutoff_ext_2'' \<mapsto> 2 ^ 32, ''cutoff_ext_3'' \<mapsto> 2 ^ 32] \<rparr>"

definition example_wide_hier :: circuit where
  "example_wide_hier = example_flat \<lparr> hierarchical_diagonalization := True,
      system_hierarchy := Some (Nested [Flat [1], Flat [2, 3]]),
      subsystem_trunc_dims := Some [TDim (2 ^ 32), TDim (2 ^ 32)] \<rparr>"


section \<open>Building the subsystem nodes\<close>

text \<open>
  \<open>self.subsystem_trunc_dims[index]\<close>: subscripting \<open>None\<close> is a \<open>TypeError\<close>, an
  index beyond the list an \<open>IndexError\<close>.
\<close>

fun subscript :: "trunc_dim list option \<Rightarrow> nat \<Rightarrow> error + trunc_dim" where
  "subscript None index = Inl TypeError"
| "subscript (Some tds) index = (if index < length tds then Inr (tds ! index) else Inl IndexError)"

text \<open>
  The keyword arguments \<open>truncated_dim\<close> and \<open>subsystem_trunc_dims\<close> that
  \<open>generate_subsystems\<close> passes to the constructor of a child.
\<close>

fun child_truncated_dim :: "trunc_dim \<Rightarrow> int" where
  "child_truncated_dim (TDim d) = d"
| "child_truncated_dim (TComb d inner) = d"

fun child_trunc_dims :: "trunc_dim \<Rightarrow> trunc_dim list option" where
  "child_trunc_dims (TDim d) = None"
| "child_trunc_dims (TComb d inner) = Some inner"

text \<open>
  The constructor \<open>Subsystem(parent, hamiltonian, system_hierarchy, subsystem_trunc_dims,
  truncated_dim)\<close> with \<open>_initiate_subsystem\<close>, and the list comprehension of
  \<open>generate_subsystems\<close> that calls it for \<open>index\<close>, \<open>index + 1\<close>, ... The last argument
  and the second component of the result count the nodes whose construction has
  finished. The symbolic Hamiltonians the nodes carry are modelled apart, in the next
  section; they decide nothing here. An exception leaves the comprehension at once.
\<close>

function Subsystem :: "group \<Rightarrow> trunc_dim list option \<Rightarrow> int \<Rightarrow> nat \<Rightarrow> (error + node) \<times> nat"
  and build_subsystems :: "nat \<Rightarrow> group list \<Rightarrow> trunc_dim list option \<Rightarrow> nat
                             \<Rightarrow> (error + node list) \<times> nat" where
  "Subsystem g tds truncated_dim built =
     (if is_hierarchical g then
        (case build_subsystems 0 (subgroups g) tds built of
           (Inl e, built') \<Rightarrow> (Inl e, built')
         | (Inr children, built') \<Rightarrow> (Inr (Node g truncated_dim tds children), Suc built'))
      else (Inr (Node g truncated_dim tds []), Suc built))"
| "build_subsystems index [] tds built = (Inr [], built)"
| "build_subsystems index (g # rest) tds built =
     (case subscript tds index of
        Inl e \<Rightarrow> (Inl e, built)
      | Inr entry \<Rightarrow>
        (case Subsystem g (child_trunc_dims entry) (child_truncated_dim entry) built of
           (Inl e, built') \<Rightarrow> (Inl e, built')
         | (Inr child, built') \<Rightarrow>
           (case build_subsystems (Suc index) rest tds built' of
              (Inl e, built'') \<Rightarrow> (Inl e, built'')
            | (Inr children, built'') \<Rightarrow> (Inr (child # children), built''))))"
  by pat_completeness auto
termination
  apply (relation "measure (\<lambda>x. case x of Inl (g, _) \<Rightarrow> 2 * size g + 1
                                      | Inr (_, gs, _) \<Rightarrow> 2 * size_list size gs)")
     apply simp
    apply (case_tac g; simp)
   apply simp
  apply simp
  done

text \<open>Python's \<open>a or b\<close> on values that are \<open>None\<close> or a list.\<close>

fun or_group :: "group option \<Rightarrow> group option \<Rightarrow> group option" where
  "or_group None b = b"
| "or_group (Some g) b = (if len g = 0 then b else Some g)"

fun or_trunc_dims :: "trunc_dim list option \<Rightarrow> trunc_dim list option \<Rightarrow> trunc_dim list option" where
  "or_trunc_dims None b = b"
| "or_trunc_dims (Some tds) b = (if tds = [] then b else Some tds)"

text \<open>
  \<open>generate_subsystems\<close> as far as the node tree goes. Its first loop flattens every
  element of \<open>self.system_hierarchy\<close>, which raises a \<open>TypeError\<close> when the hierarchy
  is \<open>None\<close> or its elements are variable indices. The attribute \<open>subsystems\<close> is
  assigned only when the whole comprehension has returned.
\<close>

definition generate_subsystems :: "circuit \<Rightarrow> nat \<Rightarrow> error option \<times> circuit \<times> nat" where
  "generate_subsystems self built =
     (case system_hierarchy self of
        None \<Rightarrow> (Some TypeError, self, built)
      | Some (Flat []) \<Rightarrow> (None, self\<lparr>subsystems := Some []\<rparr>, built)
      | Some (Flat (var_index # rest)) \<Rightarrow> (Some TypeError, self, built)
      | Some (Nested groups) \<Rightarrow>
        (case build_subsystems 0 groups (subsystem_trunc_dims self) built of
           (Inl e, built') \<Rightarrow> (Some e, self, built')
         | (Inr nodes, built') \<Rightarrow> (None, self\<lparr>subsystems := Some nodes\<rparr>, built')))"

text \<open>
  The block of \<open>initiate_circuit\<close> that removes the old cutoffs and makes the cutoff
  properties anew. The value of a property \<open>name\<close> is kept in the attribute
  \<open>"_" + name\<close>, and the block deletes every attribute with \<open>"_cutoff_"\<close> in its name.
  A \<open>Circuit\<close> has no attribute \<open>parent\<close>, so a periodic variable gets the cutoff 5
  and an extended variable the cutoff 30.
\<close>

definition remove_old_cutoffs :: "(string \<rightharpoonup> int) \<Rightarrow> (string \<rightharpoonup> int)" where
  "remove_old_cutoffs a =
     (\<lambda>name. if is_substr ''_cutoff_'' (''_'' @ name) then None else a name)"

fun make_cutoffs :: "(nat \<Rightarrow> string) \<Rightarrow> int \<Rightarrow> nat list \<Rightarrow> circuit \<Rightarrow> circuit" where
  "make_cutoffs name cutoff [] self = self"
| "make_cutoffs name cutoff (var_index # rest) self =
     make_cutoffs name cutoff rest
       (self\<lparr>attrs := (attrs self)(name var_index \<mapsto> cutoff),
             cutoff_names := cutoff_names self @ [name var_index]\<rparr>)"

fun init_cutoffs :: "(string \<times> nat list) list \<Rightarrow> circuit \<Rightarrow> circuit" where
  "init_cutoffs [] self = self"
| "init_cutoffs ((var_type, var_indices) # rest) self =
     init_cutoffs rest
       (if var_type = ''periodic'' then make_cutoffs cutoff_n_name 5 var_indices self
        else if var_type = ''extended'' then make_cutoffs cutoff_ext_name 30 var_indices self
        else self)"

definition reset_cutoffs :: "circuit \<Rightarrow> circuit" where
  "reset_cutoffs self =
     init_cutoffs (var_categories self)
       (self\<lparr>attrs := remove_old_cutoffs (attrs self), cutoff_names := []\<rparr>)"

text \<open>
  \<open>Circuit.initiate_circuit(system_hierarchy, subsystem_trunc_dims)\<close>: the first lines
  of the method, the reset of the cutoffs and the last block, which decides on the
  hierarchy. The record holds the variable categories that the symbolic circuit has
  after the method has initiated it again. The parameter, flux and charge properties,
  which the method also resets, are not among the fields of the record. The result is the
  exception raised, if any, the instance as the call leaves it, and the number of nodes
  built.
\<close>

definition initiate_circuit ::
  "circuit \<Rightarrow> group option \<Rightarrow> trunc_dim list option \<Rightarrow> nat \<Rightarrow> error option \<times> circuit \<times> nat" where
  "initiate_circuit self system_hierarchy_arg subsystem_trunc_dims_arg built =
     (let sh = or_group system_hierarchy_arg (system_hierarchy self);
          tds = or_trunc_dims subsystem_trunc_dims_arg (subsystem_trunc_dims self);
          self0 = reset_cutoffs (self\<lparr>hierarchical_diagonalization := (sh \<noteq> None)\<rparr>);
          hier = (case sh of None \<Rightarrow> False | Some g \<Rightarrow> is_hierarchical g);
          self1 = self0\<lparr>hierarchical_diagonalization := hier\<rparr>
      in if \<not> hier then (None, self1, built)
         else
           (let self2 = self1\<lparr>system_hierarchy := sh\<rparr>
            in case tds of
                 None \<Rightarrow> (Some ConfigError, self2, built)
               | Some t \<Rightarrow> generate_subsystems (self2\<lparr>subsystem_trunc_dims := Some t\<rparr>) built))"


section \<open>Partitioning the symbolic Hamiltonian\<close>

text \<open>
  The symbols of a canonical Hamiltonian, by the tests \<open>generate_subsystems\<close> makes on
  their names: an operator symbol \<open>Op kind i\<close> is named \<open>kind\<close> followed by the
  variable index \<open>i\<close> (\<open>n1\<close>, \<open>Qs2\<close>, the position, sine and cosine symbols); \<open>Identity\<close>
  is \<open>I\<close>; \<open>Flux i\<close> is an external flux, whose name holds the flux letter; \<open>Charge i\<close>
  is an offset charge \<open>ng_i\<close>; \<open>Param name\<close> is a branch parameter, a member of
  \<open>self.param_vars\<close>.
\<close>

datatype symbol = Op string nat | Identity | Flux nat | Charge nat | Param string

text \<open>
  A monomial is a product of powers of symbols; a symbolic expression is what
  \<open>as_coefficients_dict\<close> returns for it, the coefficient of each monomial, with no
  monomial twice and no zero coefficient.
\<close>

type_synonym monomial = "(symbol \<times> nat) list"
type_synonym expression = "(monomial \<times> rat) list"

definition free_symbols :: "monomial \<Rightarrow> symbol list" where
  "free_symbols m = remdups (map fst m)"

text \<open>
  The index the inner loop finds for a symbol: none for a flux, an offset charge or a
  branch parameter (the \<open>if\<close> skips them), and none for \<open>I\<close>, which has no trailing
  number.
\<close>

fun symbol_index :: "symbol \<Rightarrow> nat option" where
  "symbol_index (Op kind i) = Some i"
| "symbol_index Identity = None"
| "symbol_index (Flux i) = None"
| "symbol_index (Charge i) = None"
| "symbol_index (Param name) = None"

fun collect_indices :: "symbol list \<Rightarrow> nat list \<Rightarrow> nat list" where
  "collect_indices [] term_var_categories = term_var_categories"
| "collect_indices (var # vars) term_var_categories =
     (case symbol_index var of
        None \<Rightarrow> collect_indices vars term_var_categories
      | Some index \<Rightarrow>
          (if index \<notin> set term_var_categories
           then collect_indices vars (term_var_categories @ [index])
           else collect_indices vars term_var_categories))"

definition term_var_categories :: "monomial \<Rightarrow> nat list" where
  "term_var_categories m = collect_indices (free_symbols m) []"

text \<open>Sums and differences of expressions, with like monomials collected.\<close>

fun add_term :: "monomial \<Rightarrow> rat \<Rightarrow> expression \<Rightarrow> expression" where
  "add_term m c [] = (if c = 0 then [] else [(m, c)])"
| "add_term m c ((m', c') # rest) =
     (if m = m' then (if c' + c = 0 then rest else (m', c' + c) # rest)
      else (m', c') # add_term m c rest)"

definition expr_add :: "expression \<Rightarrow> expression \<Rightarrow> expression" where
  "expr_add p q = fold (\<lambda>(m, c). add_term m c) q p"

definition expr_neg :: "expression \<Rightarrow> expression" where
  "expr_neg p = map (\<lambda>(m, c). (m, - c)) p"

definition expr_sub :: "expression \<Rightarrow> expression \<Rightarrow> expression" where
  "expr_sub p q = expr_add p (expr_neg q)"

definition coeff :: "expression \<Rightarrow> monomial \<Rightarrow> rat" where
  "coeff p m = (case map_of p m of None \<Rightarrow> 0 | Some c \<Rightarrow> c)"

text \<open>
  The loop over \<open>terms_list\<close> for one group: a monomial whose variables all lie in
  the group goes to \<open>H_sys\<close>, one with variables inside and outside goes to \<open>H_int\<close>.
\<close>

fun scan_terms :: "(monomial \<times> rat) list \<Rightarrow> nat list \<Rightarrow> expression \<times> expression
                     \<Rightarrow> expression \<times> expression" where
  "scan_terms [] subsys_index_list (H_sys, H_int) = (H_sys, H_int)"
| "scan_terms ((m, c) # terms) subsys_index_list (H_sys, H_int) =
     (let vars = term_var_categories m;
          H_sys' = (if set vars - set subsys_index_list = {}
                    then add_term m c H_sys else H_sys);
          H_int' = (if set vars - set subsys_index_list \<noteq> {}
                       \<and> set vars \<inter> set subsys_index_list \<noteq> {}
                    then add_term m c H_int else H_int)
      in scan_terms terms subsys_index_list (H_sys', H_int'))"

text \<open>
  The loop over the groups of \<open>self.system_hierarchy\<close>, with the statement
  \<open>hamiltonian -= H_sys - H_int\<close> that ends each round.
\<close>

fun partition_groups :: "group list \<Rightarrow> expression \<Rightarrow> expression list \<times> expression list
                           \<Rightarrow> expression list \<times> expression list" where
  "partition_groups [] hamiltonian (systems_sym, interaction_sym) = (systems_sym, interaction_sym)"
| "partition_groups (g # rest) hamiltonian (systems_sym, interaction_sym) =
     (let subsys_index_list = flatten_list_recursive g;
          (H_sys, H_int) = scan_terms hamiltonian subsys_index_list ([], [])
      in partition_groups rest (expr_sub hamiltonian (expr_sub H_sys H_int))
           (systems_sym @ [H_sys], interaction_sym @ [H_int]))"

definition subsystem_hamiltonians :: "group list \<Rightarrow> expression \<Rightarrow> expression list" where
  "subsystem_hamiltonians groups hamiltonian = fst (partition_groups groups hamiltonian ([], []))"

definition subsystem_interactions :: "group list \<Rightarrow> expression \<Rightarrow> expression list" where
  "subsystem_interactions groups hamiltonian = snd (partition_groups groups hamiltonian ([], []))"

text \<open>The sum of all self-Hamiltonians and all interaction Hamiltonians.\<close>

definition resum :: "group list \<Rightarrow> expression \<Rightarrow> expression" where
  "resum groups hamiltonian =
     fold (\<lambda>q p. expr_add p q)
       (subsystem_hamiltonians groups hamiltonian @ subsystem_interactions groups hamiltonian) []"

text \<open>Two periodic variables with a coupling: \<open>4 n1^2 + 4 n2^2 + n1 n2\<close>.\<close>

definition coupling :: monomial where
  "coupling = [(Op ''n'' 1, 1), (Op ''n'' 2, 1)]"

definition two_islands :: expression where
  "two_islands = [([(Op ''n'' 1, 2)], 4), ([(Op ''n'' 2, 2)], 4), (coupling, 1)]"


section \<open>Elementary operators\<close>

text \<open>
  A matrix is the list of its rows. The storage formats of \<open>scipy.sparse\<close> (\<open>dia\<close>,
  \<open>csc\<close>) hold the same entries, so \<open>tocsc\<close> changes nothing here.
\<close>

type_synonym 'a matrix = "'a list list"

text \<open>\<open>sparse.dia_matrix((rows, cols))\<close>: the empty matrix of that shape.\<close>

definition dia_matrix_empty :: "nat \<Rightarrow> nat \<Rightarrow> ('a::zero) matrix" where
  "dia_matrix_empty rows cols = replicate rows (replicate cols 0)"

text \<open>\<open>A.setdiag(values)\<close>: the main diagonal takes the values, as far as they go.\<close>

definition setdiag :: "'a matrix \<Rightarrow> 'a list \<Rightarrow> 'a matrix" where
  "setdiag A diag_elements =
     map (\<lambda>i. if i < length diag_elements then (A ! i)[i := diag_elements ! i] else A ! i)
       [0..<length A]"

text \<open>
  \<open>sparse.dia_matrix((data, [offset]), shape=(shape, shape))\<close>: the entry in row \<open>i\<close> and
  column \<open>j = i + offset\<close> is \<open>data[j]\<close>; every other entry is zero.
\<close>

definition dia_matrix :: "('a::zero) list \<Rightarrow> int \<Rightarrow> nat \<Rightarrow> 'a matrix" where
  "dia_matrix data offset shape =
     map (\<lambda>i. map (\<lambda>j. if int j = int i + offset \<and> j < length data then data ! j else 0)
                [0..<shape])
       [0..<shape]"

definition mat_add :: "('a::plus) matrix \<Rightarrow> 'a matrix \<Rightarrow> 'a matrix" where
  "mat_add A B = map2 (map2 (+)) A B"

definition mat_sub :: "('a::minus) matrix \<Rightarrow> 'a matrix \<Rightarrow> 'a matrix" where
  "mat_sub A B = map2 (map2 (-)) A B"

definition mat_scale :: "('a::times) \<Rightarrow> 'a matrix \<Rightarrow> 'a matrix" where
  "mat_scale c A = map (map (\<lambda>x. c * x)) A"

text \<open>
  Modelled from the spec: \<open>Grid1d\<close> of \<open>scqubits.core.discretization\<close> is not among
  the sources. The spec describes a uniform grid of the configured point count over the
  configured interval; \<open>make_linspace\<close> returns its coordinates, both ends included.
\<close>

record Grid1d =
  min_val :: real
  max_val :: real
  pt_count :: nat

definition make_linspace :: "Grid1d \<Rightarrow> real list" where
  "make_linspace grid =
     map (\<lambda>k. if pt_count grid = 1 then min_val grid
               else min_val grid + real k * ((max_val grid - min_val grid) / real (pt_count grid - 1)))
       [0..<pt_count grid]"

text \<open>\<open>Subsystem._cos_phi\<close> and \<open>Subsystem._sin_phi\<close>, line by line.\<close>

definition cos_phi :: "Grid1d \<Rightarrow> real matrix" where
  "cos_phi grid =
     (let pt_count = pt_count grid;
          cos_op = dia_matrix_empty pt_count pt_count;
          diag_elements = map cos (make_linspace grid)
      in setdiag cos_op diag_elements)"

definition sin_phi :: "Grid1d \<Rightarrow> real matrix" where
  "sin_phi grid =
     (let pt_count = pt_count grid;
          sin_op = dia_matrix_empty pt_count pt_count;
          diag_elements = map cos (make_linspace grid)
      in setdiag sin_op diag_elements)"

text \<open>
  The charge basis of a periodic variable with cutoff \<open>ncut\<close>:
  \<open>_n_theta_operator\<close>, \<open>_exp_i_theta_operator\<close>, \<open>_exp_i_theta_operator_conjugate\<close>,
  \<open>_cos_theta\<close> and \<open>_sin_theta\<close>. \<open>np.arange(-ncut, ncut + 1)\<close> is the list of the
  integers from \<open>-ncut\<close> to \<open>ncut\<close>.
\<close>

definition n_theta_operator :: "nat \<Rightarrow> complex matrix" where
  "n_theta_operator ncut =
     (let dim_theta = 2 * ncut + 1;
          diag_elements = map of_int [- int ncut..int ncut]
      in dia_matrix diag_elements 0 dim_theta)"

definition exp_i_theta_operator :: "nat \<Rightarrow> complex matrix" where
  "exp_i_theta_operator ncut =
     (let dim_theta = 2 * ncut + 1
      in dia_matrix (replicate dim_theta (- 1)) (- 1) dim_theta)"

definition exp_i_theta_operator_conjugate :: "nat \<Rightarrow> complex matrix" where
  "exp_i_theta_operator_conjugate ncut =
     (let dim_theta = 2 * ncut + 1
      in dia_matrix (replicate dim_theta (- 1)) 1 dim_theta)"

definition cos_theta :: "nat \<Rightarrow> complex matrix" where
  "cos_theta ncut =
     mat_scale (1 / 2) (mat_add (exp_i_theta_operator ncut) (exp_i_theta_operator_conjugate ncut))"

definition sin_theta :: "nat \<Rightarrow> complex matrix" where
  "sin_theta ncut =
     mat_scale (- \<i> * (1 / 2))
       (mat_sub (exp_i_theta_operator ncut) (exp_i_theta_operator_conjugate ncut))"


text \<open>
  The operators the claim names, in its own words: the charge raising and the charge
  lowering operator are the shift-by-one operators on the \<open>2 * ncut + 1\<close> charge states,
  which take the state of charge \<open>n\<close> to the state of charge \<open>n + 1\<close>, respectively
  \<open>n - 1\<close>. Their entries are 1 one place below, respectively above, the diagonal.
\<close>

definition spec_raising_operator :: "nat \<Rightarrow> complex matrix" where
  "spec_raising_operator ncut =
     map (\<lambda>i. map (\<lambda>j. if i = j + 1 then 1 else 0) [0..<2 * ncut + 1]) [0..<2 * ncut + 1]"

definition spec_lowering_operator :: "nat \<Rightarrow> complex matrix" where
  "spec_lowering_operator ncut =
     map (\<lambda>i. map (\<lambda>j. if j = i + 1 then 1 else 0) [0..<2 * ncut + 1]) [0..<2 * ncut + 1]"


section \<open>The eigensolver\<close>

text \<open>
  The solvers of \<open>scipy\<close> are outside the repository: what \<open>eigsh\<close> returns on the sparse
  path and \<open>eigvalsh\<close> or \<open>eigh\<close> on the dense path are arguments of the model, the
  eigenvalues as a list and the eigenvectors as the list of the columns.
\<close>

datatype matrix_type = Sparse | Dense

text \<open>\<open>Subsystem._evals_calc\<close>: it returns \<open>np.sort(evals)\<close>.\<close>

definition evals_calc :: "matrix_type \<Rightarrow> real list \<Rightarrow> real list \<Rightarrow> real list" where
  "evals_calc type_of_matrices eigsh_evals eigvalsh_evals =
     (let evals = (case type_of_matrices of Sparse \<Rightarrow> eigsh_evals | Dense \<Rightarrow> eigvalsh_evals)
      in sort evals)"

text \<open>
  Modelled from the spec: \<open>order_eigensystem\<close> of \<open>scqubits.utils.spectrum_utils\<close> is
  not among the sources. The spec states its postcondition: eigenvalues ascending, and
  the eigenvectors permuted to match. The model sorts the pairs of an eigenvalue and its
  eigenvector by the eigenvalue.
\<close>

definition order_eigensystem :: "real list \<Rightarrow> 'v list \<Rightarrow> real list \<times> 'v list" where
  "order_eigensystem evals evecs =
     (let pairs = sort_key fst (zip evals evecs) in (map fst pairs, map snd pairs))"

text \<open>\<open>Subsystem._esys_calc\<close>.\<close>

definition esys_calc :: "matrix_type \<Rightarrow> real list \<times> 'v list \<Rightarrow> real list \<times> 'v list
                           \<Rightarrow> real list \<times> 'v list" where
  "esys_calc type_of_matrices eigsh_esys eigh_esys =
     (let (evals, evecs) = (case type_of_matrices of Sparse \<Rightarrow> eigsh_esys | Dense \<Rightarrow> eigh_esys)
      in order_eigensystem evals evecs)"


section \<open>The flux shift of the canonicalizer\<close>

text \<open>
  \<open>generate_hamiltonian_sym_for_numerics\<close> works on a \<open>sympy\<close> expression. The model
  keeps the expression as a tree over the position symbols, the shift symbols the method
  introduces, and every other symbol; \<open>expand\<close> and the automatic simplification of
  \<open>sympy\<close> rewrite an expression without changing its value, so the model leaves the
  tree as it is and compares values.
\<close>

datatype sym = Theta nat | DeltaTheta nat | Other string

datatype sexpr =
    Num real
  | Sym sym
  | Add sexpr sexpr
  | Mul sexpr sexpr
  | Cos sexpr
  | Sin sexpr

fun evaluate :: "(sym \<Rightarrow> real) \<Rightarrow> sexpr \<Rightarrow> real" where
  "evaluate env (Num c) = c"
| "evaluate env (Sym s) = env s"
| "evaluate env (Add a b) = evaluate env a + evaluate env b"
| "evaluate env (Mul a b) = evaluate env a * evaluate env b"
| "evaluate env (Cos a) = cos (evaluate env a)"
| "evaluate env (Sin a) = sin (evaluate env a)"

fun symbols_of :: "sexpr \<Rightarrow> sym set" where
  "symbols_of (Num c) = {}"
| "symbols_of (Sym s) = {s}"
| "symbols_of (Add a b) = symbols_of a \<union> symbols_of b"
| "symbols_of (Mul a b) = symbols_of a \<union> symbols_of b"
| "symbols_of (Cos a) = symbols_of a"
| "symbols_of (Sin a) = symbols_of a"

text \<open>\<open>H.replace(symbol, expr)\<close>, and \<open>H.subs(pairs)\<close>, which replaces pair after pair.\<close>

fun replace :: "sym \<Rightarrow> sexpr \<Rightarrow> sexpr \<Rightarrow> sexpr" where
  "replace s e (Num c) = Num c"
| "replace s e (Sym s') = (if s' = s then e else Sym s')"
| "replace s e (Add a b) = Add (replace s e a) (replace s e b)"
| "replace s e (Mul a b) = Mul (replace s e a) (replace s e b)"
| "replace s e (Cos a) = Cos (replace s e a)"
| "replace s e (Sin a) = Sin (replace s e a)"

fun subs :: "(sym \<times> sexpr) list \<Rightarrow> sexpr \<Rightarrow> sexpr" where
  "subs [] H = H"
| "subs ((s, e) # pairs) H = subs pairs (replace s e H)"

text \<open>
  The first loop of the method. \<open>has_linear_term H i\<close> stands for the test
  \<open>H.coeff(position symbol of i) != 0\<close> of \<open>sympy\<close>; the keys of \<open>flux_shift_vars\<close>
  are collected in the order of insertion.
\<close>

fun shift_positions :: "(sexpr \<Rightarrow> nat \<Rightarrow> bool) \<Rightarrow> nat list \<Rightarrow> sexpr \<Rightarrow> nat list
                          \<Rightarrow> sexpr \<times> nat list" where
  "shift_positions has_linear_term [] H flux_shift_vars = (H, flux_shift_vars)"
| "shift_positions has_linear_term (var_index # rest) H flux_shift_vars =
     (if has_linear_term H var_index
      then shift_positions has_linear_term rest
             (replace (Theta var_index)
                (Add (Sym (Theta var_index)) (Sym (DeltaTheta var_index))) H)
             (flux_shift_vars @ [var_index])
      else shift_positions has_linear_term rest H flux_shift_vars)"

text \<open>
  The flux shift, from the first loop to the update of \<open>flux_shifts_dict\<close>.
  \<open>linsolve H keys\<close> stands for the equations the method reads off the expression and
  the call of \<open>sympy\<close>'s \<open>linsolve\<close> on them: the list of the solution tuples, empty when
  the solver finds no solution. The result is the expression after both substitutions
  and the final \<open>flux_shifts_dict\<close>.
\<close>

definition flux_shift ::
  "(sexpr \<Rightarrow> nat \<Rightarrow> bool) \<Rightarrow> (sexpr \<Rightarrow> nat list \<Rightarrow> sexpr list list) \<Rightarrow> nat list \<Rightarrow> sexpr
     \<Rightarrow> sexpr \<times> (nat \<times> sexpr) list" where
  "flux_shift has_linear_term linsolve extended H0 =
     (let (H1, flux_shift_vars) = shift_positions has_linear_term extended H0 [];
          solutions = linsolve H1 flux_shift_vars;
          flux_shifts = (if length solutions \<noteq> 0 then hd solutions else []);
          flux_shifts_dict = zip flux_shift_vars flux_shifts;
          H2 = subs (map (\<lambda>(var_index, shift). (DeltaTheta var_index, shift)) flux_shifts_dict) H1;
          H3 = subs (map (\<lambda>var_index. (DeltaTheta var_index, Num 0)) flux_shift_vars) H2
      in (H3,
          flux_shifts_dict
          @ map (\<lambda>var_index. (var_index, Num 0))
              (filter (\<lambda>var_index. var_index \<notin> set (map fst flux_shifts_dict)) extended)))"

text \<open>A position with a linear term that no shift can remove: \<open>x1 + cos x1\<close>.\<close>

definition tilted :: sexpr where
  "tilted = Add (Sym (Theta 1)) (Cos (Sym (Theta 1)))"


section \<open>Properties of the truncation template\<close>

lemma is_flat_Flat: "is_flat (Flat xs)"
  by (simp add: is_flat_def)

lemma is_flat_Nested: "is_flat (Nested gs) \<longleftrightarrow> gs = []"
  by (cases gs) (auto simp: is_flat_def)

lemma truncation_template_length:
  "length (truncation_template gs ind comb) = length gs"
  by (induction gs ind comb rule: truncation_template.induct) simp_all


lemma truncation_template_example:
  "truncation_template [Nested [Flat [1], Nested [Flat [2], Flat [3]]], Flat [4]] 3 7 =
     [TComb 7 [TDim 6, TComb 50 [TDim 6, TDim 6]], TDim 3]"
  by (simp add: is_flat_def)


section \<open>Properties of the subsystem lookup\<close>

lemma get_subsystem_index_from_None:
  "var_index \<notin> (\<Union>g \<in> set gs. set (flatten_list_recursive g)) \<Longrightarrow>
   get_subsystem_index_from index gs var_index = None"
  by (induction gs arbitrary: index) simp_all

lemma get_subsystem_index_from_Some:
  "var_index \<in> (\<Union>g \<in> set gs. set (flatten_list_recursive g)) \<Longrightarrow>
   \<exists>k. get_subsystem_index_from index gs var_index = Some k"
  by (induction gs arbitrary: index) auto

text \<open>
  C10. For a variable index that belongs to no group of the hierarchy,
  \<open>get_subsystem_index\<close> falls through its loop and returns \<open>None\<close>; it raises no
  error.
\<close>

theorem get_subsystem_index_unknown:
  "var_index \<notin> (\<Union>g \<in> set groups. set (flatten_list_recursive g)) \<Longrightarrow>
   get_subsystem_index groups var_index = None"
  unfolding get_subsystem_index_def by (rule get_subsystem_index_from_None)

theorem get_subsystem_index_unknown_witness:
  "(4::nat) \<notin> (\<Union>g \<in> set [Flat [1, 2], Nested [Flat [3], Flat [5]]].
                  set (flatten_list_recursive g)) \<and>
   get_subsystem_index [Flat [1, 2], Nested [Flat [3], Flat [5]]] 4 = None"
  using get_subsystem_index_unknown [of 4 "[Flat [1, 2], Nested [Flat [3], Flat [5]]]"]
  by simp


section \<open>Properties of the Hilbert-space dimension\<close>

lemma digit_char_in: "d < 10 \<Longrightarrow> digit_char d \<in> set ''0123456789''"
  unfolding digit_char_def by (rule nth_mem) simp

lemma str_digit: "n < 10 \<Longrightarrow> str n = [digit_char n]"
  by (subst str.simps) simp

lemma str_digits: "set (str n) \<subseteq> set ''0123456789''"
proof (induction n rule: str.induct)
  case (1 n)
  show ?case
  proof (cases "n < 10")
    case True
    then show ?thesis using digit_char_in [of n] by (subst str.simps) simp
  next
    case False
    then show ?thesis using 1 digit_char_in [of "n mod 10"] by (subst str.simps) simp
  qed
qed

lemma no_c_no_substr: "CHR ''c'' \<notin> set s \<Longrightarrow> \<not> is_substr (CHR ''c'' # p) s"
  by (induction s) auto

lemma str_no_substr: "\<not> is_substr (CHR ''c'' # p) (str n)"
  using str_digits [of n] by (intro no_c_no_substr) auto

lemma cutoff_n_in_n_name: "is_substr ''cutoff_n'' (cutoff_n_name i)"
  by (simp add: cutoff_n_name_def)

lemma cutoff_ext_in_ext_name: "is_substr ''cutoff_ext'' (cutoff_ext_name i)"
  by (simp add: cutoff_ext_name_def)

lemma cutoff_n_in_ext_name: "\<not> is_substr ''cutoff_n'' (cutoff_ext_name i)"
  using str_no_substr [of "''utoff_n''" i] by (simp add: cutoff_ext_name_def)

lemma cutoff_ext_in_n_name: "\<not> is_substr ''cutoff_ext'' (cutoff_n_name i)"
  using str_no_substr [of "''utoff_ext''" i] by (simp add: cutoff_n_name_def)

lemma filter_cutoff_n:
  "filter (is_substr ''cutoff_n'') (map cutoff_n_name ps @ map cutoff_ext_name es) =
   map cutoff_n_name ps"
  by (simp add: filter_map o_def cutoff_n_in_n_name cutoff_n_in_ext_name del: is_substr.simps)

lemma filter_cutoff_ext:
  "filter (is_substr ''cutoff_ext'') (map cutoff_n_name ps @ map cutoff_ext_name es) =
   map cutoff_ext_name es"
  by (simp add: filter_map o_def cutoff_ext_in_ext_name cutoff_ext_in_n_name del: is_substr.simps)

lemma getattrs_defined:
  "\<forall>n \<in> set ns. a n \<noteq> None \<Longrightarrow> getattrs a ns = Inr (map (\<lambda>n. the (a n)) ns)"
  by (induction ns) auto

lemma mset_filter_cutoff_n:
  assumes "mset names = mset (map cutoff_n_name ps @ map cutoff_ext_name es)"
  shows "mset (filter (is_substr ''cutoff_n'') names) = mset (map cutoff_n_name ps)"
proof -
  have "mset (filter (is_substr ''cutoff_n'') names) =
        mset (filter (is_substr ''cutoff_n'') (map cutoff_n_name ps @ map cutoff_ext_name es))"
    using assms by (simp only: mset_filter)
  then show ?thesis by (simp only: filter_cutoff_n)
qed

lemma mset_filter_cutoff_ext:
  assumes "mset names = mset (map cutoff_n_name ps @ map cutoff_ext_name es)"
  shows "mset (filter (is_substr ''cutoff_ext'') names) = mset (map cutoff_ext_name es)"
proof -
  have "mset (filter (is_substr ''cutoff_ext'') names) =
        mset (filter (is_substr ''cutoff_ext'') (map cutoff_n_name ps @ map cutoff_ext_name es))"
    using assms by (simp only: mset_filter)
  then show ?thesis by (simp only: filter_cutoff_ext)
qed

lemma prod_list_mset_cong:
  "mset xs = mset ys \<Longrightarrow> prod_list (map f xs) = prod_list (map (f :: string \<Rightarrow> int) ys)"
proof -
  assume "mset xs = mset ys"
  then have "prod_mset (mset (map f xs)) = prod_mset (mset (map f ys))" by simp
  then show ?thesis by (simp only: prod_mset_prod_list)
qed

text \<open>
  One round of \<open>get_cutoffs\<close> when the names of the type are, in some order, the names
  \<open>name i\<close> of the variables \<open>vars\<close>, each with a value: the values come back, and
  their product, mapped through any \<open>h\<close>, is the product over the variables.
\<close>

lemma cutoffs_of_type_product:
  assumes names: "mset (filter (is_substr cutoff_type) (cutoff_names self)) = mset (map name vars)"
    and vals: "\<forall>i \<in> set vars. attrs self (name i) = Some (cutoff i)"
  shows "\<exists>cs. cutoffs_of_type self cutoff_type = Inr cs
              \<and> prod_list (map h cs) = (\<Prod>i\<leftarrow>vars. (h (cutoff i) :: int))"
proof -
  let ?attr_list = "filter (is_substr cutoff_type) (cutoff_names self)"
  let ?cs = "map (\<lambda>n. the (attrs self n)) (sort ?attr_list)"
  have perm: "mset (sort ?attr_list) = mset (map name vars)"
    using names by simp
  have "set (sort ?attr_list) = set (map name vars)"
    using perm by (rule mset_eq_setD)
  then have "\<forall>n \<in> set (sort ?attr_list). attrs self n \<noteq> None"
    using vals by auto
  then have "getattrs (attrs self) (sort ?attr_list) = Inr ?cs"
    by (rule getattrs_defined)
  then have res: "cutoffs_of_type self cutoff_type = Inr ?cs"
    unfolding cutoffs_of_type_def Let_def by (cases "?attr_list") simp_all
  have "prod_list (map h ?cs) = prod_list (map (\<lambda>n. h (the (attrs self n))) (sort ?attr_list))"
    by (simp add: o_def)
  also have "\<dots> = prod_list (map (\<lambda>n. h (the (attrs self n))) (map name vars))"
    using perm by (rule prod_list_mset_cong)
  also have "\<dots> = (\<Prod>i\<leftarrow>vars. h (cutoff i))"
    using vals by (simp add: o_def cong: map_cong)
  finally show ?thesis using res by blast
qed

lemma prod_list_word_of_int:
  "prod_list (map word_of_int xs) = (word_of_int (prod_list xs) :: 64 word)"
proof (induction xs)
  case Nil
  show ?case by simp
next
  case (Cons x xs)
  then show ?case by (simp only: list.map prod_list.Cons wi_hom_mult)
qed

lemma np_prod_wrapped: "np_prod xs = sint (word_of_int (prod_list xs) :: 64 word)"
  by (simp add: np_prod_def prod_list_word_of_int)

lemma sint_word_of_int_exact:
  assumes "- (2 ^ 63) \<le> k" "k < 2 ^ 63"
  shows "sint (word_of_int k :: 64 word) = k"
proof -
  have "sint (word_of_int k :: 64 word) = signed_take_bit (LENGTH(64) - 1) k"
    by (rule sint_sbintrunc')
  also have "\<dots> = k"
    using assms by (intro signed_take_bit_int_eq_self) simp_all
  finally show ?thesis .
qed

text \<open>
  What \<open>hilbertdim\<close> returns without hierarchical diagonalization, whatever the size of
  the cutoffs: the product of \<open>2 * cutoff + 1\<close> over the periodic variables and of the
  cutoffs over the extended variables, wrapped to a signed 64-bit integer.
\<close>

lemma hilbertdim_flat_wrapped:
  assumes flat: "\<not> hierarchical_diagonalization self"
    and names: "mset (cutoff_names self) =
                  mset (map cutoff_n_name periodic @ map cutoff_ext_name extended)"
    and per: "\<forall>i \<in> set periodic. attrs self (cutoff_n_name i) = Some (cutoff_n i)"
    and ext: "\<forall>i \<in> set extended. attrs self (cutoff_ext_name i) = Some (cutoff_ext i)"
  shows "hilbertdim self =
           Inr (sint (word_of_int ((\<Prod>i\<leftarrow>periodic. 2 * cutoff_n i + 1)
                                   * (\<Prod>i\<leftarrow>extended. cutoff_ext i)) :: 64 word))"
proof -
  obtain ns where ns: "cutoffs_of_type self ''cutoff_n'' = Inr ns"
    and pn: "prod_list (map (\<lambda>k. 2 * k + 1) ns) = (\<Prod>i\<leftarrow>periodic. 2 * cutoff_n i + 1)"
    using cutoffs_of_type_product [OF mset_filter_cutoff_n [OF names] per, of "\<lambda>k. 2 * k + 1"]
    by blast
  obtain es where es: "cutoffs_of_type self ''cutoff_ext'' = Inr es"
    and pe: "prod_list (map (\<lambda>k. k) es) = (\<Prod>i\<leftarrow>extended. cutoff_ext i)"
    using cutoffs_of_type_product [OF mset_filter_cutoff_ext [OF names] ext, of "\<lambda>k. k"]
    by blast
  have "hilbertdim self = Inr (np_prod (map (\<lambda>k. 2 * k + 1) ns @ es))"
    using flat by (simp add: hilbertdim_def get_cutoffs_def ns es dims_of_cutoffs_def)
  moreover have "prod_list (map (\<lambda>k. 2 * k + 1) ns @ es) =
                 (\<Prod>i\<leftarrow>periodic. 2 * cutoff_n i + 1) * (\<Prod>i\<leftarrow>extended. cutoff_ext i)"
    using pn pe by simp
  ultimately show ?thesis by (simp only: np_prod_wrapped)
qed

text \<open>
  C4, as the code has it. Without hierarchical diagonalization, \<open>hilbertdim\<close> is the
  product of \<open>2 * cutoff + 1\<close> over the periodic variables times the product of the
  cutoffs over the extended variables, provided this product is a signed 64-bit integer.
  The instance has, in any order, the cutoff names that the constructors make from the
  lists of periodic and extended variables, and a cutoff property under each name.
\<close>

theorem hilbertdim_flat:
  assumes flat: "\<not> hierarchical_diagonalization self"
    and names: "mset (cutoff_names self) =
                  mset (map cutoff_n_name periodic @ map cutoff_ext_name extended)"
    and per: "\<forall>i \<in> set periodic. attrs self (cutoff_n_name i) = Some (cutoff_n i)"
    and ext: "\<forall>i \<in> set extended. attrs self (cutoff_ext_name i) = Some (cutoff_ext i)"
    and lower: "- (2 ^ 63) \<le> (\<Prod>i\<leftarrow>periodic. 2 * cutoff_n i + 1) * (\<Prod>i\<leftarrow>extended. cutoff_ext i)"
    and upper: "(\<Prod>i\<leftarrow>periodic. 2 * cutoff_n i + 1) * (\<Prod>i\<leftarrow>extended. cutoff_ext i) < 2 ^ 63"
  shows "hilbertdim self =
           Inr ((\<Prod>i\<leftarrow>periodic. 2 * cutoff_n i + 1) * (\<Prod>i\<leftarrow>extended. cutoff_ext i))"
  using hilbertdim_flat_wrapped [OF flat names per ext]
  by (simp only: sint_word_of_int_exact [OF lower upper])

theorem hilbertdim_flat_witness:
  "hilbertdim example_flat = Inr ((2 * 5 + 1) * (30 * 10))"
  using hilbertdim_flat [of example_flat "[1]" "[2, 3]" "\<lambda>i. 5" "\<lambda>i. if i = 2 then 30 else 10"]
  by (simp add: example_flat_def cutoff_n_name_def cutoff_ext_name_def str_digit digit_char_def)

text \<open>
  C4, as stated for every instance, fails: with the extended cutoffs \<open>2 ** 32\<close> and
  \<open>2 ** 32\<close> and the periodic cutoff 5 the product is \<open>11 * 2 ** 64\<close>, and
  \<open>hilbertdim\<close> returns 0.
\<close>

theorem hilbertdim_flat_wraps:
  "\<not> hierarchical_diagonalization example_wide
   \<and> hilbertdim example_wide = Inr 0
   \<and> (2 * 5 + 1) * (2 ^ 32 * 2 ^ 32) = (202914184810805067776 :: int)"
proof -
  have "hilbertdim example_wide =
          Inr (sint (word_of_int ((\<Prod>i\<leftarrow>[1::nat]. 2 * 5 + 1) * (\<Prod>i\<leftarrow>[2::nat, 3]. 2 ^ 32)) :: 64 word))"
    by (rule hilbertdim_flat_wrapped)
       (simp_all add: example_wide_def example_flat_def cutoff_n_name_def cutoff_ext_name_def
          str_digit digit_char_def)
  then show ?thesis
    by (simp add: example_wide_def example_flat_def)
qed

lemma top_dims_defined:
  "\<forall>i \<in> set idxs. i < length tds \<Longrightarrow>
   top_dims idxs tds = Inr (map (\<lambda>i. top_dim (tds ! i)) idxs)"
  by (induction idxs) auto

lemma map_nth_upt_take:
  "n \<le> length xs \<Longrightarrow> map (\<lambda>i. f (xs ! i)) [0..<n] = map f (take n xs)"
  by (simp add: list_eq_iff_nth_eq)

lemma top_dim_case: "top_dim = (\<lambda>t. case t of TDim d \<Rightarrow> d | TComb d inner \<Rightarrow> d)"
proof
  fix t show "top_dim t = (case t of TDim d \<Rightarrow> d | TComb d inner \<Rightarrow> d)"
    by (cases t) simp_all
qed

text \<open>
  What \<open>hilbertdim\<close> returns with hierarchical diagonalization, whatever the size of the
  truncated dimensions.
\<close>

lemma hilbertdim_hierarchical_wrapped:
  assumes "hierarchical_diagonalization self"
    and "system_hierarchy self = Some g"
    and "subsystem_trunc_dims self = Some tds"
    and "len g \<le> length tds"
  shows "hilbertdim self =
           Inr (sint (word_of_int
                  (prod_list (map (\<lambda>t. case t of TDim d \<Rightarrow> d | TComb d inner \<Rightarrow> d)
                                (take (len g) tds))) :: 64 word))"
proof -
  have "top_dims [0..<len g] tds = Inr (map (\<lambda>i. top_dim (tds ! i)) [0..<len g])"
    using assms(4) by (intro top_dims_defined) auto
  then have "hilbertdim self = Inr (np_prod (map top_dim (take (len g) tds)))"
    using assms by (simp add: hilbertdim_def map_nth_upt_take)
  then show ?thesis by (simp only: np_prod_wrapped top_dim_case)
qed

text \<open>
  C5, as the code has it. With hierarchical diagonalization, \<open>hilbertdim\<close> is the
  product of the top-level truncated dimensions, one for each top-level group of the
  hierarchy: the entry itself when it is an integer, its first element when it is a
  list; provided this product is a signed 64-bit integer.
\<close>

theorem hilbertdim_hierarchical:
  assumes "hierarchical_diagonalization self"
    and "system_hierarchy self = Some g"
    and "subsystem_trunc_dims self = Some tds"
    and "len g \<le> length tds"
    and "- (2 ^ 63) \<le> prod_list (map (\<lambda>t. case t of TDim d \<Rightarrow> d | TComb d inner \<Rightarrow> d)
                                    (take (len g) tds))"
    and "prod_list (map (\<lambda>t. case t of TDim d \<Rightarrow> d | TComb d inner \<Rightarrow> d)
                      (take (len g) tds)) < 2 ^ 63"
  shows "hilbertdim self =
           Inr (prod_list (map (\<lambda>t. case t of TDim d \<Rightarrow> d | TComb d inner \<Rightarrow> d)
                             (take (len g) tds)))"
  using hilbertdim_hierarchical_wrapped [OF assms(1-4)]
  by (simp only: sint_word_of_int_exact [OF assms(5,6)])

theorem hilbertdim_hierarchical_witness:
  "hilbertdim example_hier = Inr (7 * 6)"
  using hilbertdim_hierarchical [of example_hier "Nested [Nested [Flat [1], Flat [2]], Flat [3]]"
          "[TComb 7 [TDim 6, TDim 6], TDim 6]"]
  by (simp add: example_hier_def example_flat_def)

text \<open>
  C5, as stated for every instance, fails: with two groups and the truncated dimensions
  \<open>2 ** 32\<close> and \<open>2 ** 32\<close> the product is \<open>2 ** 64\<close>, and \<open>hilbertdim\<close> returns 0.
\<close>

theorem hilbertdim_hierarchical_wraps:
  "hierarchical_diagonalization example_wide_hier
   \<and> hilbertdim example_wide_hier = Inr 0
   \<and> 2 ^ 32 * 2 ^ 32 = (18446744073709551616 :: int)"
proof -
  have "hilbertdim example_wide_hier =
          Inr (sint (word_of_int
                 (prod_list (map (\<lambda>t. case t of TDim d \<Rightarrow> d | TComb d inner \<Rightarrow> d)
                               (take (len (Nested [Flat [1], Flat [2, 3]]))
                                  [TDim (2 ^ 32), TDim (2 ^ 32)]))) :: 64 word))"
    by (rule hilbertdim_hierarchical_wrapped)
       (simp_all add: example_wide_hier_def example_flat_def)
  then show ?thesis
    by (simp add: example_wide_hier_def example_flat_def)
qed


section \<open>Properties of the construction of the node tree\<close>







text \<open>
  The reset of the cutoffs that the call makes before it decides on the hierarchy: the
  instance of the example leaves the call with the cutoff 30 for its third variable, not
  the 10 it had.
\<close>

lemma initiate_circuit_resets_cutoffs:
  "attrs (fst (snd (initiate_circuit example_flat (Some (Nested [Flat [1], Flat [2, 3]])) None 0)))
     ''cutoff_ext_3'' = Some 30"
  by (simp add: initiate_circuit_def example_flat_def is_hierarchical_def is_flat_def
      reset_cutoffs_def remove_old_cutoffs_def cutoff_n_name_def cutoff_ext_name_def
      str_digit digit_char_def)


section \<open>The partition of the Hamiltonian, evaluated\<close>

lemma partition_two_islands:
  "partition_groups [Flat [1], Flat [2]] two_islands ([], []) =
     ([[([(Op ''n'' 1, 2)], 4)], [([(Op ''n'' 2, 2)], 4)]],
      [[(coupling, 1)], [(coupling, 2)]])"
  by (simp add: two_islands_def coupling_def expr_add_def expr_sub_def expr_neg_def
      term_var_categories_def free_symbols_def)

text \<open>
  C1. Summing the self-Hamiltonians and the interaction Hamiltonians that
  \<open>generate_subsystems\<close> produces should give back the canonical Hamiltonian, monomial
  for monomial, each with its coefficient. The code does not do so. For two groups with
  one variable each and the Hamiltonian \<open>4 n1^2 + 4 n2^2 + n1 n2\<close>, the statement \<open>hamiltonian -= H_sys - H_int\<close> puts the
  coupling back with a doubled coefficient after the first group, so the second group
  finds it with coefficient 2: the sum of all self-Hamiltonians and interaction
  Hamiltonians has the coupling with coefficient 3, the Hamiltonian has it with 1.
\<close>

theorem resum_triples_coupling:
  "coeff (resum [Flat [1], Flat [2]] two_islands) coupling = 3
   \<and> coeff two_islands coupling = 1"
  by (simp add: resum_def subsystem_hamiltonians_def subsystem_interactions_def two_islands_def
      coupling_def coeff_def expr_add_def expr_sub_def expr_neg_def term_var_categories_def
      free_symbols_def)


section \<open>Properties of the elementary operators\<close>

lemma setdiag_entry:
  assumes "i < n" "j < n" "length diag_elements = n"
  shows "setdiag (dia_matrix_empty n n) diag_elements ! i ! j =
           (if i = j then diag_elements ! i else 0)"
  using assms by (simp add: setdiag_def dia_matrix_empty_def)

lemma dia_matrix_entry:
  assumes "i < n" "j < n" "length data = n"
  shows "dia_matrix data offset n ! i ! j = (if int j = int i + offset then data ! j else 0)"
  using assms by (simp add: dia_matrix_def)

lemma length_make_linspace: "length (make_linspace grid) = pt_count grid"
  by (simp add: make_linspace_def)

lemma cos_phi_entry:
  assumes "i < pt_count grid" "j < pt_count grid"
  shows "cos_phi grid ! i ! j = (if i = j then cos (make_linspace grid ! i) else 0)"
  using assms by (simp add: cos_phi_def Let_def setdiag_entry length_make_linspace)

lemma sin_phi_entry:
  assumes "i < pt_count grid" "j < pt_count grid"
  shows "sin_phi grid ! i ! j = (if i = j then cos (make_linspace grid ! i) else 0)"
  using assms by (simp add: sin_phi_def Let_def setdiag_entry length_make_linspace)

text \<open>
  C2. In the discretized basis the cosine operator is the diagonal matrix of the
  cosines of the grid coordinates (\<open>cos_phi_entry\<close>), and the sine operator should be
  the diagonal matrix of their sines. The code does not do so for the sine: \<open>_sin_phi\<close>
  fills its diagonal with \<open>np.cos(grid.make_linspace())\<close>. On the grid of two points over the interval from 0 to
  1 the first coordinate is 0, where the sine is 0, and the first diagonal entry of the
  operator is 1.
\<close>

theorem sin_phi_holds_cosine:
  "make_linspace \<lparr>min_val = 0, max_val = 1, pt_count = 2\<rparr> ! 0 = 0
   \<and> sin_phi \<lparr>min_val = 0, max_val = 1, pt_count = 2\<rparr> ! 0 ! 0 = 1
   \<and> sin (make_linspace \<lparr>min_val = 0, max_val = 1, pt_count = 2\<rparr> ! 0) = 0"
proof -
  let ?g = "\<lparr>min_val = 0, max_val = 1, pt_count = 2\<rparr>"
  have g0: "make_linspace ?g ! 0 = 0"
    by (simp add: make_linspace_def)
  have "sin_phi ?g ! 0 ! 0 = cos (make_linspace ?g ! 0)"
    using sin_phi_entry [of 0 ?g 0] by simp
  then show ?thesis using g0 by simp
qed

lemma n_theta_entry:
  assumes "i < 2 * ncut + 1" "j < 2 * ncut + 1"
  shows "n_theta_operator ncut ! i ! j = (if i = j then of_int (int i - int ncut) else 0)"
proof -
  have len: "length (map of_int [- int ncut..int ncut] :: complex list) = 2 * ncut + 1"
    by simp
  have nth: "[- int ncut..int ncut] ! j = - int ncut + int j"
    using assms(2) by (intro nth_upto) simp
  have "j < length [- int ncut..int ncut]" using assms(2) by simp
  then have "(map of_int [- int ncut..int ncut] :: complex list) ! j = of_int (int j - int ncut)"
    using nth by (simp add: algebra_simps)
  then show ?thesis
    using assms dia_matrix_entry [OF assms len, of 0]
    by (auto simp: n_theta_operator_def Let_def)
qed

lemma dia_matrix_replicate_entry:
  "i < n \<Longrightarrow> j < n \<Longrightarrow>
   dia_matrix (replicate n c) offset n ! i ! j = (if int j = int i + offset then c else 0)"
  by (simp add: dia_matrix_def)

lemma exp_i_theta_entry:
  assumes "i < 2 * ncut + 1" "j < 2 * ncut + 1"
  shows "exp_i_theta_operator ncut ! i ! j = (if i = j + 1 then - 1 else 0)"
proof -
  have "exp_i_theta_operator ncut ! i ! j = (if int j = int i + (- 1) then - 1 else 0)"
    unfolding exp_i_theta_operator_def Let_def using assms by (rule dia_matrix_replicate_entry)
  also have "\<dots> = (if i = j + 1 then - 1 else 0)"
    by auto
  finally show ?thesis .
qed

lemma exp_i_theta_conjugate_entry:
  assumes "i < 2 * ncut + 1" "j < 2 * ncut + 1"
  shows "exp_i_theta_operator_conjugate ncut ! i ! j = (if j = i + 1 then - 1 else 0)"
proof -
  have "exp_i_theta_operator_conjugate ncut ! i ! j = (if int j = int i + 1 then - 1 else 0)"
    unfolding exp_i_theta_operator_conjugate_def Let_def using assms
    by (rule dia_matrix_replicate_entry)
  also have "\<dots> = (if j = i + 1 then - 1 else 0)"
    by auto
  finally show ?thesis .
qed

lemma dia_matrix_shape:
  "length (dia_matrix data offset n) = n"
  "i < n \<Longrightarrow> length (dia_matrix data offset n ! i) = n"
  by (simp_all add: dia_matrix_def)

lemma exp_i_theta_shape:
  "length (exp_i_theta_operator ncut) = 2 * ncut + 1"
  "i < 2 * ncut + 1 \<Longrightarrow> length (exp_i_theta_operator ncut ! i) = 2 * ncut + 1"
  unfolding exp_i_theta_operator_def Let_def by (rule dia_matrix_shape)+

lemma exp_i_theta_conjugate_shape:
  "length (exp_i_theta_operator_conjugate ncut) = 2 * ncut + 1"
  "i < 2 * ncut + 1 \<Longrightarrow> length (exp_i_theta_operator_conjugate ncut ! i) = 2 * ncut + 1"
  unfolding exp_i_theta_operator_conjugate_def Let_def by (rule dia_matrix_shape)+

lemma mat_scale_entry:
  "i < length A \<Longrightarrow> j < length (A ! i) \<Longrightarrow> mat_scale c A ! i ! j = c * (A ! i ! j)"
  by (simp add: mat_scale_def)

lemma mat_add_entry:
  "i < length A \<Longrightarrow> i < length B \<Longrightarrow> j < length (A ! i) \<Longrightarrow> j < length (B ! i) \<Longrightarrow>
   mat_add A B ! i ! j = A ! i ! j + B ! i ! j"
  by (simp add: mat_add_def)

lemma mat_sub_entry:
  "i < length A \<Longrightarrow> i < length B \<Longrightarrow> j < length (A ! i) \<Longrightarrow> j < length (B ! i) \<Longrightarrow>
   mat_sub A B ! i ! j = A ! i ! j - B ! i ! j"
  by (simp add: mat_sub_def)

lemma mat_add_shape:
  "length (mat_add A B) = min (length A) (length B)"
  "i < length A \<Longrightarrow> i < length B \<Longrightarrow>
   length (mat_add A B ! i) = min (length (A ! i)) (length (B ! i))"
  by (simp_all add: mat_add_def)

lemma mat_sub_shape:
  "length (mat_sub A B) = min (length A) (length B)"
  "i < length A \<Longrightarrow> i < length B \<Longrightarrow>
   length (mat_sub A B ! i) = min (length (A ! i)) (length (B ! i))"
  by (simp_all add: mat_sub_def)

lemma cos_theta_entry:
  assumes "i < 2 * ncut + 1" "j < 2 * ncut + 1"
  shows "cos_theta ncut ! i ! j =
           1 / 2 * (exp_i_theta_operator ncut ! i ! j + exp_i_theta_operator_conjugate ncut ! i ! j)"
proof -
  let ?E = "exp_i_theta_operator ncut" and ?C = "exp_i_theta_operator_conjugate ncut"
  have "cos_theta ncut ! i ! j = 1 / 2 * (mat_add ?E ?C ! i ! j)"
    unfolding cos_theta_def using assms
    by (intro mat_scale_entry)
       (simp_all add: mat_add_shape exp_i_theta_shape exp_i_theta_conjugate_shape)
  also have "mat_add ?E ?C ! i ! j = ?E ! i ! j + ?C ! i ! j"
    using assms by (intro mat_add_entry) (simp_all add: exp_i_theta_shape exp_i_theta_conjugate_shape)
  finally show ?thesis .
qed

lemma sin_theta_entry:
  assumes "i < 2 * ncut + 1" "j < 2 * ncut + 1"
  shows "sin_theta ncut ! i ! j =
           - \<i> / 2 * exp_i_theta_operator ncut ! i ! j
           + \<i> / 2 * exp_i_theta_operator_conjugate ncut ! i ! j"
proof -
  let ?E = "exp_i_theta_operator ncut" and ?C = "exp_i_theta_operator_conjugate ncut"
  have "sin_theta ncut ! i ! j = - \<i> * (1 / 2) * (mat_sub ?E ?C ! i ! j)"
    unfolding sin_theta_def using assms
    by (intro mat_scale_entry)
       (simp_all add: mat_sub_shape exp_i_theta_shape exp_i_theta_conjugate_shape)
  also have "mat_sub ?E ?C ! i ! j = ?E ! i ! j - ?C ! i ! j"
    using assms by (intro mat_sub_entry) (simp_all add: exp_i_theta_shape exp_i_theta_conjugate_shape)
  finally show ?thesis by (simp add: algebra_simps)
qed

lemma n_theta_shape:
  "length (n_theta_operator ncut) = 2 * ncut + 1"
  "i < 2 * ncut + 1 \<Longrightarrow> length (n_theta_operator ncut ! i) = 2 * ncut + 1"
  unfolding n_theta_operator_def Let_def by (rule dia_matrix_shape)+

lemma cos_theta_shape:
  "length (cos_theta ncut) = 2 * ncut + 1"
  "i < 2 * ncut + 1 \<Longrightarrow> length (cos_theta ncut ! i) = 2 * ncut + 1"
  by (simp_all add: cos_theta_def mat_scale_def mat_add_shape exp_i_theta_shape
      exp_i_theta_conjugate_shape)

lemma sin_theta_shape:
  "length (sin_theta ncut) = 2 * ncut + 1"
  "i < 2 * ncut + 1 \<Longrightarrow> length (sin_theta ncut ! i) = 2 * ncut + 1"
  by (simp_all add: sin_theta_def mat_scale_def mat_sub_shape exp_i_theta_shape
      exp_i_theta_conjugate_shape)

lemma table_entry:
  "i < n \<Longrightarrow> j < n \<Longrightarrow> map (\<lambda>i. map (\<lambda>j. f i j) [0..<n]) [0..<n] ! i ! j = f i j"
  by simp

lemma spec_raising_entry:
  "i < 2 * ncut + 1 \<Longrightarrow> j < 2 * ncut + 1 \<Longrightarrow>
   spec_raising_operator ncut ! i ! j = (if i = j + 1 then 1 else 0)"
  unfolding spec_raising_operator_def by (rule table_entry)

lemma spec_lowering_entry:
  "i < 2 * ncut + 1 \<Longrightarrow> j < 2 * ncut + 1 \<Longrightarrow>
   spec_lowering_operator ncut ! i ! j = (if j = i + 1 then 1 else 0)"
  unfolding spec_lowering_operator_def by (rule table_entry)

lemma exp_i_theta_negated_shift:
  assumes "i < 2 * ncut + 1" "j < 2 * ncut + 1"
  shows "exp_i_theta_operator ncut ! i ! j = - spec_raising_operator ncut ! i ! j"
    and "exp_i_theta_operator_conjugate ncut ! i ! j = - spec_lowering_operator ncut ! i ! j"
  using assms
  by (simp_all add: exp_i_theta_entry exp_i_theta_conjugate_entry spec_raising_entry
      spec_lowering_entry)

lemma cos_theta_shift:
  assumes "i < 2 * ncut + 1" "j < 2 * ncut + 1"
  shows "cos_theta ncut ! i ! j =
           - (1 / 2) * (spec_raising_operator ncut ! i ! j + spec_lowering_operator ncut ! i ! j)"
proof -
  have "cos_theta ncut ! i ! j =
          1 / 2 * (- spec_raising_operator ncut ! i ! j + - spec_lowering_operator ncut ! i ! j)"
    by (simp only: cos_theta_entry [OF assms] exp_i_theta_negated_shift [OF assms])
  then show ?thesis by (simp add: algebra_simps)
qed

lemma sin_theta_shift:
  assumes "i < 2 * ncut + 1" "j < 2 * ncut + 1"
  shows "sin_theta ncut ! i ! j =
           \<i> / 2 * spec_raising_operator ncut ! i ! j
           - \<i> / 2 * spec_lowering_operator ncut ! i ! j"
proof -
  have "sin_theta ncut ! i ! j =
          - \<i> / 2 * - spec_raising_operator ncut ! i ! j
          + \<i> / 2 * - spec_lowering_operator ncut ! i ! j"
    by (simp only: sin_theta_entry [OF assms] exp_i_theta_negated_shift [OF assms])
  then show ?thesis by (simp add: algebra_simps)
qed

text \<open>
  C3, as the code has it. For a periodic variable with cutoff \<open>ncut\<close> the operators
  are square matrices of size \<open>2 * ncut + 1\<close>. The charge-number operator is diagonal
  with the entries \<open>-ncut, ..., ncut\<close>. The ladder operators of the code,
  \<open>_exp_i_theta_operator\<close> and \<open>_exp_i_theta_operator_conjugate\<close>, are the negated
  raising and lowering shift: the source fills them with \<open>-1.0\<close>. So the cosine operator
  is the sum of the two shifts times \<open>-1/2\<close>, and the sine operator is the raising shift
  times \<open>i/2\<close> plus the lowering shift times \<open>-i/2\<close>.
\<close>

theorem charge_basis_operators:
  assumes "i < 2 * ncut + 1" "j < 2 * ncut + 1"
  shows "length (n_theta_operator ncut) = 2 * ncut + 1
       \<and> length (n_theta_operator ncut ! i) = 2 * ncut + 1
       \<and> n_theta_operator ncut ! i ! j = (if i = j then of_int (int i - int ncut) else 0)
       \<and> length (cos_theta ncut) = 2 * ncut + 1
       \<and> length (cos_theta ncut ! i) = 2 * ncut + 1
       \<and> length (sin_theta ncut) = 2 * ncut + 1
       \<and> length (sin_theta ncut ! i) = 2 * ncut + 1
       \<and> exp_i_theta_operator ncut ! i ! j = - spec_raising_operator ncut ! i ! j
       \<and> exp_i_theta_operator_conjugate ncut ! i ! j = - spec_lowering_operator ncut ! i ! j
       \<and> cos_theta ncut ! i ! j =
           - (1 / 2) * (spec_raising_operator ncut ! i ! j + spec_lowering_operator ncut ! i ! j)
       \<and> sin_theta ncut ! i ! j =
           \<i> / 2 * spec_raising_operator ncut ! i ! j
           - \<i> / 2 * spec_lowering_operator ncut ! i ! j"
  using n_theta_shape(1) [of ncut] n_theta_shape(2) [OF assms(1)] n_theta_entry [OF assms]
    cos_theta_shape(1) [of ncut] cos_theta_shape(2) [OF assms(1)]
    sin_theta_shape(1) [of ncut] sin_theta_shape(2) [OF assms(1)]
    exp_i_theta_negated_shift [OF assms] cos_theta_shift [OF assms] sin_theta_shift [OF assms]
  by (intro conjI)

theorem charge_basis_operators_witness:
  "(1::nat) < 2 * 1 + 1 \<and> (0::nat) < 2 * 1 + 1
   \<and> length (n_theta_operator 1) = 3
   \<and> n_theta_operator 1 ! 1 ! 0 = 0
   \<and> spec_raising_operator 1 ! 1 ! 0 = 1
   \<and> spec_lowering_operator 1 ! 1 ! 0 = 0
   \<and> exp_i_theta_operator 1 ! 1 ! 0 = - 1
   \<and> cos_theta 1 ! 1 ! 0 = - (1 / 2)
   \<and> sin_theta 1 ! 1 ! 0 = \<i> / 2"
proof -
  have i: "(1::nat) < 2 * 1 + 1" and j: "(0::nat) < 2 * 1 + 1"
    by simp_all
  have r: "spec_raising_operator 1 ! 1 ! 0 = 1"
    by (simp add: spec_raising_operator_def)
  have l: "spec_lowering_operator 1 ! 1 ! 0 = 0"
    by (simp add: spec_lowering_operator_def)
  note ops = charge_basis_operators [OF i j]
  have len: "length (n_theta_operator 1) = 3"
    using ops by simp
  have n: "n_theta_operator 1 ! 1 ! 0 = 0"
    using ops by simp
  have "exp_i_theta_operator 1 ! 1 ! 0 = - spec_raising_operator 1 ! 1 ! 0"
    using ops by blast
  then have e: "exp_i_theta_operator 1 ! 1 ! 0 = - 1"
    unfolding r .
  have "cos_theta 1 ! 1 ! 0 =
          - (1 / 2) * (spec_raising_operator 1 ! 1 ! 0 + spec_lowering_operator 1 ! 1 ! 0)"
    using ops by blast
  then have co: "cos_theta 1 ! 1 ! 0 = - (1 / 2)"
    unfolding r l by simp
  have "sin_theta 1 ! 1 ! 0 =
          \<i> / 2 * spec_raising_operator 1 ! 1 ! 0 - \<i> / 2 * spec_lowering_operator 1 ! 1 ! 0"
    using ops by blast
  then have si: "sin_theta 1 ! 1 ! 0 = \<i> / 2"
    unfolding r l by simp
  show ?thesis
    using i j len n r l e co si by blast
qed

text \<open>
  C3, as stated, fails for the cosine and the sine: half the sum of the raising and the
  lowering shift has the entry \<open>1/2\<close> one place below the diagonal, where the cosine
  operator of the code has \<open>-1/2\<close>; the raising shift times \<open>-i/2\<close> plus the lowering
  shift times \<open>i/2\<close> has the entry \<open>-i/2\<close> there, where the sine operator of the code has
  \<open>i/2\<close>.
\<close>

theorem cos_theta_negated:
  "cos_theta 1 ! 1 ! 0 = - (1 / 2)
   \<and> 1 / 2 * (spec_raising_operator 1 ! 1 ! 0 + spec_lowering_operator 1 ! 1 ! 0) = 1 / 2
   \<and> sin_theta 1 ! 1 ! 0 = \<i> / 2
   \<and> - \<i> / 2 * spec_raising_operator 1 ! 1 ! 0 + \<i> / 2 * spec_lowering_operator 1 ! 1 ! 0
       = - \<i> / 2"
proof -
  have i: "(1::nat) < 2 * 1 + 1" and j: "(0::nat) < 2 * 1 + 1"
    by simp_all
  have r: "spec_raising_operator 1 ! 1 ! 0 = 1"
    by (simp add: spec_raising_operator_def)
  have l: "spec_lowering_operator 1 ! 1 ! 0 = 0"
    by (simp add: spec_lowering_operator_def)
  have co: "cos_theta 1 ! 1 ! 0 = - (1 / 2)"
    using cos_theta_shift [OF i j] unfolding r l by simp
  have si: "sin_theta 1 ! 1 ! 0 = \<i> / 2"
    using sin_theta_shift [OF i j] unfolding r l by simp
  show ?thesis
    unfolding co si r l by simp
qed


section \<open>Properties of the eigensolver\<close>

lemma order_eigensystem_sorted:
  "length evals = length evecs \<Longrightarrow> sorted (fst (order_eigensystem evals evecs))"
  by (simp add: order_eigensystem_def Let_def)

lemma zip_map_fst_snd: "zip (map fst ps) (map snd ps) = ps"
  by (induction ps) auto

lemma order_eigensystem_pairs:
  "mset (zip (fst (order_eigensystem evals evecs)) (snd (order_eigensystem evals evecs))) =
   mset (zip evals evecs)"
  by (simp add: order_eigensystem_def Let_def zip_map_fst_snd)

text \<open>
  C6. On both paths \<open>_evals_calc\<close> returns the eigenvalues of the solver in ascending
  order, and \<open>_esys_calc\<close> returns ascending eigenvalues with the eigenvectors permuted
  along: the pairs of the \<open>i\<close>-th eigenvalue and the \<open>i\<close>-th eigenvector of the result
  are the pairs the solver returned.
\<close>

theorem eigensystem_ascending:
  assumes "length (fst eigsh_esys) = length (snd eigsh_esys)"
    and "length (fst eigh_esys) = length (snd eigh_esys)"
  shows "sorted (evals_calc type_of_matrices eigsh_evals eigvalsh_evals)
       \<and> mset (evals_calc type_of_matrices eigsh_evals eigvalsh_evals) =
           mset (case type_of_matrices of Sparse \<Rightarrow> eigsh_evals | Dense \<Rightarrow> eigvalsh_evals)
       \<and> sorted (fst (esys_calc type_of_matrices eigsh_esys eigh_esys))
       \<and> mset (zip (fst (esys_calc type_of_matrices eigsh_esys eigh_esys))
                   (snd (esys_calc type_of_matrices eigsh_esys eigh_esys))) =
           mset (case type_of_matrices of
                   Sparse \<Rightarrow> zip (fst eigsh_esys) (snd eigsh_esys)
                 | Dense \<Rightarrow> zip (fst eigh_esys) (snd eigh_esys))"
proof (intro conjI)
  show "sorted (evals_calc type_of_matrices eigsh_evals eigvalsh_evals)"
    by (simp add: evals_calc_def)
  show "mset (evals_calc type_of_matrices eigsh_evals eigvalsh_evals) =
          mset (case type_of_matrices of Sparse \<Rightarrow> eigsh_evals | Dense \<Rightarrow> eigvalsh_evals)"
    by (simp add: evals_calc_def)
  show "sorted (fst (esys_calc type_of_matrices eigsh_esys eigh_esys))"
    using assms order_eigensystem_sorted
    by (cases type_of_matrices) (simp_all add: esys_calc_def case_prod_beta)
  show "mset (zip (fst (esys_calc type_of_matrices eigsh_esys eigh_esys))
                  (snd (esys_calc type_of_matrices eigsh_esys eigh_esys))) =
          mset (case type_of_matrices of
                  Sparse \<Rightarrow> zip (fst eigsh_esys) (snd eigsh_esys)
                | Dense \<Rightarrow> zip (fst eigh_esys) (snd eigh_esys))"
    by (cases type_of_matrices) (simp_all add: esys_calc_def case_prod_beta order_eigensystem_pairs)
qed

theorem eigensystem_ascending_witness:
  "evals_calc Sparse [3, 1, 2] [] = [1, 2, 3]
   \<and> esys_calc Sparse ([3, 1, 2], [''c'', ''a'', ''b'']) ([], []) = ([1, 2, 3], [''a'', ''b'', ''c''])
   \<and> sorted (fst (esys_calc Sparse ([3, 1, 2], [''c'', ''a'', ''b'']) ([], [])))"
  using eigensystem_ascending [of "([3, 1, 2], [''c'', ''a'', ''b''])" "([], [])" Sparse "[3, 1, 2]" "[]"]
  by (simp add: evals_calc_def esys_calc_def order_eigensystem_def)


section \<open>Properties of the flux shift\<close>

lemma evaluate_replace:
  "evaluate env (replace s e H) = evaluate (env(s := evaluate env e)) H"
  by (induction H) simp_all

lemma evaluate_cong:
  "(\<And>s. s \<in> symbols_of H \<Longrightarrow> env s = env' s) \<Longrightarrow> evaluate env H = evaluate env' H"
  by (induction H) simp_all

lemma evaluate_subs_zero:
  "evaluate env (subs (map (\<lambda>i. (DeltaTheta i, Num 0)) keys) H) =
   evaluate (\<lambda>s. if s \<in> DeltaTheta ` set keys then 0 else env s) H"
proof (induction keys arbitrary: H)
  case Nil
  then show ?case by simp
next
  case (Cons k keys)
  have "evaluate env (subs (map (\<lambda>i. (DeltaTheta i, Num 0)) (k # keys)) H) =
        evaluate (\<lambda>s. if s \<in> DeltaTheta ` set keys then 0 else env s)
          (replace (DeltaTheta k) (Num 0) H)"
    using Cons.IH by simp
  also have "\<dots> = evaluate (\<lambda>s. if s \<in> DeltaTheta ` set (k # keys) then 0 else env s) H"
    by (simp add: evaluate_replace, rule evaluate_cong) auto
  finally show ?case .
qed

lemma shift_positions_keys:
  "set ks \<subseteq> set (snd (shift_positions hl xs H ks))"
proof (induction xs arbitrary: H ks)
  case Nil
  then show ?case by simp
next
  case (Cons x xs)
  show ?case
  proof (cases "hl H x")
    case True
    have "set (ks @ [x]) \<subseteq> set (snd (shift_positions hl xs
            (replace (Theta x) (Add (Sym (Theta x)) (Sym (DeltaTheta x))) H) (ks @ [x])))"
      by (rule Cons.IH)
    then show ?thesis using True by simp
  next
    case False
    then show ?thesis using Cons.IH by simp
  qed
qed

lemma evaluate_shift_positions:
  "\<forall>i \<in> set (snd (shift_positions hl xs H ks)). env (DeltaTheta i) = 0 \<Longrightarrow>
   evaluate env (fst (shift_positions hl xs H ks)) = evaluate env H"
proof (induction xs arbitrary: H ks)
  case Nil
  then show ?case by simp
next
  case (Cons x xs)
  show ?case
  proof (cases "hl H x")
    case True
    let ?H' = "replace (Theta x) (Add (Sym (Theta x)) (Sym (DeltaTheta x))) H"
    from Cons.prems True
    have all: "\<forall>i \<in> set (snd (shift_positions hl xs ?H' (ks @ [x]))). env (DeltaTheta i) = 0"
      by simp
    have "x \<in> set (snd (shift_positions hl xs ?H' (ks @ [x])))"
      using shift_positions_keys [of "ks @ [x]" hl xs ?H'] by auto
    with all have zero: "env (DeltaTheta x) = 0" by blast
    have "evaluate env (fst (shift_positions hl (x # xs) H ks)) = evaluate env ?H'"
      using True Cons.IH [OF all] by simp
    also have "\<dots> = evaluate env H"
      by (simp add: evaluate_replace zero)
    finally show ?thesis .
  next
    case False
    then show ?thesis using Cons by simp
  qed
qed

lemma flux_shift_no_solution:
  assumes "linsolve (fst (shift_positions hl extended H0 [])) (snd (shift_positions hl extended H0 [])) = []"
  shows "flux_shift hl linsolve extended H0 =
           (subs (map (\<lambda>i. (DeltaTheta i, Num 0)) (snd (shift_positions hl extended H0 [])))
              (fst (shift_positions hl extended H0 [])),
            map (\<lambda>i. (i, Num 0)) extended)"
  using assms by (simp add: flux_shift_def Let_def case_prod_beta)

text \<open>
  C8. When the solver returns no solution for the flux shifts, the canonicalizer records
  the shift zero for every extended variable, and the expression it goes on with has,
  under every assignment of the symbols, the value of the expression it started from:
  each position symbol is shifted by zero. The method computes this without raising; no
  step of it depends on a solution being there.
\<close>

theorem zero_shift_when_unsolvable:
  assumes nosol: "linsolve (fst (shift_positions has_linear_term extended H0 []))
                    (snd (shift_positions has_linear_term extended H0 [])) = []"
    and fresh: "\<forall>i. DeltaTheta i \<notin> symbols_of H0"
  shows "(\<forall>var_index \<in> set extended.
            map_of (snd (flux_shift has_linear_term linsolve extended H0)) var_index = Some (Num 0))
         \<and> (\<forall>env. evaluate env (fst (flux_shift has_linear_term linsolve extended H0)) = evaluate env H0)"
proof (intro conjI ballI allI)
  fix var_index assume "var_index \<in> set extended"
  then show "map_of (snd (flux_shift has_linear_term linsolve extended H0)) var_index = Some (Num 0)"
    unfolding flux_shift_no_solution [of linsolve has_linear_term extended H0, OF nosol]
    by (induction extended) auto
next
  fix env :: "sym \<Rightarrow> real"
  let ?keys = "snd (shift_positions has_linear_term extended H0 [])"
  let ?H1 = "fst (shift_positions has_linear_term extended H0 [])"
  let ?env0 = "\<lambda>s. if s \<in> DeltaTheta ` set ?keys then 0 else env s"
  have "evaluate env (fst (flux_shift has_linear_term linsolve extended H0)) = evaluate ?env0 ?H1"
    unfolding flux_shift_no_solution [of linsolve has_linear_term extended H0, OF nosol] by (simp add: evaluate_subs_zero)
  also have "\<dots> = evaluate ?env0 H0"
    by (rule evaluate_shift_positions) simp
  also have "\<dots> = evaluate env H0"
    using fresh by (intro evaluate_cong) auto
  finally show "evaluate env (fst (flux_shift has_linear_term linsolve extended H0)) = evaluate env H0" .
qed

theorem zero_shift_when_unsolvable_witness:
  "flux_shift (\<lambda>H i. i = 1) (\<lambda>H keys. []) [1, 2] tilted =
     (Add (Add (Sym (Theta 1)) (Num 0)) (Cos (Add (Sym (Theta 1)) (Num 0))),
      [(1, Num 0), (2, Num 0)])
   \<and> map_of (snd (flux_shift (\<lambda>H i. i = 1) (\<lambda>H keys. []) [1, 2] tilted)) 1 = Some (Num 0)
   \<and> map_of (snd (flux_shift (\<lambda>H i. i = 1) (\<lambda>H keys. []) [1, 2] tilted)) 2 = Some (Num 0)
   \<and> evaluate (\<lambda>s. 2) (fst (flux_shift (\<lambda>H i. i = 1) (\<lambda>H keys. []) [1, 2] tilted))
       = evaluate (\<lambda>s. 2) tilted"
  using zero_shift_when_unsolvable [of "\<lambda>H keys. []" "\<lambda>H i. i = 1" "[1, 2]" tilted]
  by (simp add: flux_shift_def tilted_def)

end
